theory Spec2Isabelle
  imports Main "HOL-Library.Word" "HOL-Library.Sublist"
begin

unbundle bit_operations_syntax

section \<open>Python values and exceptions\<close>

text \<open>
  The module \<^verbatim>\<open>riak/riak_object.py\<close> is dynamically typed. The values that flow
  through it (quorum arguments, field values, resolvers) are modelled by one datatype;
  \<open>PyCallable\<close> stands for any object that the builtin \<^verbatim>\<open>callable\<close> accepts.
\<close>

type_synonym byte = "8 word"
type_synonym bytes = "byte list"

datatype pyval =
    PyNone
  | PyBool bool
  | PyInt int
  | PyStr string
  | PyBytes bytes
  | PyCallable string

fun callable :: "pyval \<Rightarrow> bool" where
  "callable (PyCallable f) = True"
| "callable v = False"

text \<open>
  Every \<^verbatim>\<open>raise\<close> of the module is a value of \<open>error\<close>; the string is the
  exception's argument. \<open>OtherError\<close> is whatever a collaborator (the transport, the
  content class) raises on its own.
\<close>

datatype error =
    ConflictError string
  | ValueError string
  | KeyError string
  | TypeError string
  | BinasciiError string
  | OtherError string

text \<open>Keyword arguments of a call, in the order they are written.\<close>

type_synonym kwargs = "(string \<times> pyval) list"

section \<open>Collaborators\<close>

text \<open>
  Modelled from the spec: the bucket (\<^verbatim>\<open>riak/bucket.py\<close> is not part of these
  sources). Section 6 of the specification fixes its boundary: \<^verbatim>\<open>bucket.name\<close>
  (a string) and \<^verbatim>\<open>bucket.resolver\<close> (a callable or absent).
\<close>

record RiakBucket =
  bucket_name :: string
  bucket_resolver :: pyval

text \<open>
  The class \<^verbatim>\<open>RiakContent\<close> (\<^verbatim>\<open>riak/content.py\<close>) is not part of these
  sources, so it is a parameter of the model: \<open>'c\<close> is the state of one content
  object, \<open>RiakContent\<close> is the state of a freshly constructed one,
  \<open>content_getattr\<close>, \<open>content_setattr\<close> and \<open>content_call\<close> are Python's
  \<^verbatim>\<open>getattr\<close>, \<^verbatim>\<open>setattr\<close> and method call on it (each may change the
  content in place and may raise), and \<open>content_exists\<close> reads its
  \<^verbatim>\<open>exists\<close> attribute (false for a tombstone).
\<close>

record 'c content_class =
  RiakContent :: 'c
  content_getattr :: "string \<Rightarrow> 'c \<Rightarrow> 'c \<times> (error + pyval)"
  content_setattr :: "string \<Rightarrow> pyval \<Rightarrow> 'c \<Rightarrow> 'c \<times> (error + unit)"
  content_call :: "string \<Rightarrow> pyval list \<Rightarrow> kwargs \<Rightarrow> 'c \<Rightarrow> 'c \<times> (error + pyval)"
  content_exists :: "'c \<Rightarrow> bool"

section \<open>The base64 codec of the standard library\<close>

text \<open>
  Modelled from the spec: \<^verbatim>\<open>base64.b64encode\<close> and \<^verbatim>\<open>base64.b64decode\<close>
  belong to Python's standard library, not to these sources. Section 4.1 of the
  specification asks for the standard base64 alphabet with padding; the model below is
  that codec as CPython's \<^verbatim>\<open>binascii\<close> implements it. The encoder maps each
  group of three bytes to four characters and pads the last group with \<^verbatim>\<open>=\<close>.
  The decoder is \<^verbatim>\<open>a2b_base64\<close> in its default, non-strict mode: it skips
  characters outside the alphabet, stops at a complete pad sequence, and raises
  \<^verbatim>\<open>binascii.Error\<close> when the data characters do not fill the last group
  (Python 2 raises it again as \<^verbatim>\<open>TypeError\<close>; no property below depends on
  which of the two it is).
\<close>

definition b64_alphabet :: bytes where
  "b64_alphabet = map of_char
     ''ABCDEFGHIJKLMNOPQRSTUVWXYZabcdefghijklmnopqrstuvwxyz0123456789+/''"

definition BASE64_PAD :: byte where
  "BASE64_PAD = of_char CHR ''=''"

definition table_b2a_base64 :: "byte \<Rightarrow> byte" where
  "table_b2a_base64 v = b64_alphabet ! unat v"

definition table_a2b_base64 :: "byte \<Rightarrow> byte option" where
  "table_a2b_base64 ch = map_of (zip b64_alphabet (map of_nat [0..<64])) ch"

fun b2a_base64 :: "bytes \<Rightarrow> bytes" where
  "b2a_base64 [] = []"
| "b2a_base64 [a] =
     [table_b2a_base64 (drop_bit 2 a), table_b2a_base64 (push_bit 4 (a AND 3)),
      BASE64_PAD, BASE64_PAD]"
| "b2a_base64 [a, b] =
     [table_b2a_base64 (drop_bit 2 a),
      table_b2a_base64 (push_bit 4 (a AND 3) OR drop_bit 4 b),
      table_b2a_base64 (push_bit 2 (b AND 15)), BASE64_PAD]"
| "b2a_base64 (a # b # c # rest) =
     table_b2a_base64 (drop_bit 2 a) #
     table_b2a_base64 (push_bit 4 (a AND 3) OR drop_bit 4 b) #
     table_b2a_base64 (push_bit 2 (b AND 15) OR drop_bit 6 c) #
     table_b2a_base64 (c AND 63) # b2a_base64 rest"

text \<open>
  The decoder's loop. \<open>quad_pos\<close> counts the data characters of the current group,
  \<open>pads\<close> the pad characters seen since the last data character, \<open>leftchar\<close>
  holds the bits not yet written, \<open>bin_data\<close> is the output so far.
\<close>

fun a2b_base64_loop :: "bytes \<Rightarrow> nat \<Rightarrow> nat \<Rightarrow> byte \<Rightarrow> bytes \<Rightarrow> error + bytes" where
  "a2b_base64_loop [] quad_pos pads leftchar bin_data =
     (if quad_pos \<noteq> 0
      then (if quad_pos = 1
            then Inl (BinasciiError ''Invalid base64-encoded string'')
            else Inl (BinasciiError ''Incorrect padding''))
      else Inr bin_data)"
| "a2b_base64_loop (this_ch # rest) quad_pos pads leftchar bin_data =
     (if this_ch = BASE64_PAD
      then (if quad_pos \<ge> 2 \<and> quad_pos + (pads + 1) \<ge> 4 then Inr bin_data
            else a2b_base64_loop rest quad_pos
                   (if quad_pos \<ge> 2 then pads + 1 else pads) leftchar bin_data)
      else (case table_a2b_base64 this_ch of
              None \<Rightarrow> a2b_base64_loop rest quad_pos pads leftchar bin_data
            | Some v \<Rightarrow>
                (if quad_pos = 0 then a2b_base64_loop rest 1 0 v bin_data
                 else if quad_pos = 1
                 then a2b_base64_loop rest 2 0 (v AND 15)
                        (bin_data @ [push_bit 2 leftchar OR drop_bit 4 v])
                 else if quad_pos = 2
                 then a2b_base64_loop rest 3 0 (v AND 3)
                        (bin_data @ [push_bit 4 leftchar OR drop_bit 2 v])
                 else a2b_base64_loop rest 0 0 0
                        (bin_data @ [push_bit 6 leftchar OR v]))))"

definition a2b_base64 :: "bytes \<Rightarrow> error + bytes" where
  "a2b_base64 s = a2b_base64_loop s 0 0 0 []"

definition b64decode :: "bytes \<Rightarrow> error + bytes" where
  "b64decode s = a2b_base64 s"

definition b64encode :: "bytes \<Rightarrow> error + bytes" where
  "b64encode s = Inr (b2a_base64 s)"

text \<open>
  The builtin \<^verbatim>\<open>bytes\<close> (\<^verbatim>\<open>str\<close> under Python 2) applied to a byte
  sequence: the same bytes.
\<close>

definition py_bytes :: "bytes \<Rightarrow> error + bytes" where
  "py_bytes s = Inr s"

section \<open>VClock\<close>

text \<open>
  The class \<^verbatim>\<open>VClock\<close>: its only attribute is \<^verbatim>\<open>_vclock\<close>, the decoded
  bytes. The two class-level tables are the same under Python 2 and Python 3 on byte
  sequences. The class defines neither \<^verbatim>\<open>__eq__\<close> nor \<^verbatim>\<open>__hash__\<close>.
\<close>

record VClock =
  raw_vclock :: bytes

definition decoders :: "(string \<times> (bytes \<Rightarrow> error + bytes)) list" where
  "decoders = [(''base64'', b64decode), (''binary'', py_bytes)]"

definition encoders :: "(string \<times> (bytes \<Rightarrow> error + bytes)) list" where
  "encoders = [(''base64'', b64encode), (''binary'', py_bytes)]"

text \<open>
  \<^verbatim>\<open>VClock.__init__\<close> subscripts the table of decoders directly; a name that is
  not a key of the dictionary raises \<^verbatim>\<open>KeyError\<close>.
\<close>

definition VClock_init :: "bytes \<Rightarrow> string \<Rightarrow> error + VClock" where
  "VClock_init v encoding =
     (case map_of decoders encoding of
        None \<Rightarrow> Inl (KeyError encoding)
      | Some f \<Rightarrow> (case f v of Inl e \<Rightarrow> Inl e | Inr b \<Rightarrow> Inr \<lparr>raw_vclock = b\<rparr>))"

definition encode :: "VClock \<Rightarrow> string \<Rightarrow> error + bytes" where
  "encode self encoding =
     (case map_of encoders encoding of
        Some f \<Rightarrow> f (raw_vclock self)
      | None \<Rightarrow> Inl (ValueError (encoding @ '' is not a valid vector clock encoding'')))"

section \<open>RiakObject\<close>

text \<open>
  The attributes of a \<^verbatim>\<open>RiakObject\<close>. \<open>resolver_attr\<close> is
  \<^verbatim>\<open>self._resolver\<close>. The \<open>vclock\<close> attribute holds a reference to a
  \<^verbatim>\<open>VClock\<close> object or \<^verbatim>\<open>None\<close>: the reference is the pair of the
  object's identity and its state. \<open>py_class\<close> is the chain of classes of the
  object, its own class first and \<^verbatim>\<open>RiakObject\<close> last, so that a subclass's
  chain ends with the chain of its base. The \<^verbatim>\<open>client\<close> attribute is passed
  to the methods that use it instead of being stored.
\<close>

record 'c RiakObject =
  resolver_attr :: pyval
  bucket :: RiakBucket
  key :: "string option"
  vclock :: "(nat \<times> VClock) option"
  siblings :: "'c list"
  py_class :: "string list"

subsection \<open>Delegation to the sole sibling\<close>

definition content_property_setter ::
  "'c content_class \<Rightarrow> string \<Rightarrow> 'c RiakObject \<Rightarrow> pyval \<Rightarrow> 'c RiakObject \<times> (error + unit)" where
  "content_property_setter K name self v =
     (let self1 = (if length (siblings self) = 0
                   then self\<lparr>siblings := [RiakContent K]\<rparr> else self)
      in if length (siblings self1) \<noteq> 1 then (self1, Inl (ConflictError []))
         else (case content_setattr K name v (siblings self1 ! 0) of
                 (c, res) \<Rightarrow> (self1\<lparr>siblings := (siblings self1)[0 := c]\<rparr>, res)))"

definition content_property_getter ::
  "'c content_class \<Rightarrow> string \<Rightarrow> 'c RiakObject \<Rightarrow> 'c RiakObject \<times> (error + pyval)" where
  "content_property_getter K name self =
     (if length (siblings self) = 0 then (self, Inr PyNone)
      else if length (siblings self) \<noteq> 1 then (self, Inl (ConflictError []))
      else (case content_getattr K name (siblings self ! 0) of
              (c, res) \<Rightarrow> (self\<lparr>siblings := (siblings self)[0 := c]\<rparr>, res)))"

definition content_method ::
  "'c content_class \<Rightarrow> string \<Rightarrow> 'c RiakObject \<Rightarrow> pyval list \<Rightarrow> kwargs
     \<Rightarrow> 'c RiakObject \<times> (error + pyval)" where
  "content_method K name self args kws =
     (if length (siblings self) \<noteq> 1 then (self, Inl (ConflictError []))
      else (case content_call K name args kws (siblings self ! 0) of
              (c, res) \<Rightarrow> (self\<lparr>siblings := (siblings self)[0 := c]\<rparr>, res)))"

text \<open>
  \<^verbatim>\<open>content_property(name)\<close> builds a Python property from the getter and the
  setter; the ten delegated fields of the class are instances of it.
\<close>

type_synonym 'c py_property =
  "('c RiakObject \<Rightarrow> 'c RiakObject \<times> (error + pyval)) \<times>
   ('c RiakObject \<Rightarrow> pyval \<Rightarrow> 'c RiakObject \<times> (error + unit))"

definition content_property :: "'c content_class \<Rightarrow> string \<Rightarrow> 'c py_property" where
  "content_property K name = (content_property_getter K name, content_property_setter K name)"

definition data :: "'c content_class \<Rightarrow> 'c py_property" where
  "data K = content_property K ''data''"

definition encoded_data :: "'c content_class \<Rightarrow> 'c py_property" where
  "encoded_data K = content_property K ''encoded_data''"

definition charset :: "'c content_class \<Rightarrow> 'c py_property" where
  "charset K = content_property K ''charset''"

definition content_type :: "'c content_class \<Rightarrow> 'c py_property" where
  "content_type K = content_property K ''content_type''"

definition content_encoding :: "'c content_class \<Rightarrow> 'c py_property" where
  "content_encoding K = content_property K ''content_encoding''"

definition last_modified :: "'c content_class \<Rightarrow> 'c py_property" where
  "last_modified K = content_property K ''last_modified''"

definition etag :: "'c content_class \<Rightarrow> 'c py_property" where
  "etag K = content_property K ''etag''"

definition usermeta :: "'c content_class \<Rightarrow> 'c py_property" where
  "usermeta K = content_property K ''usermeta''"

definition links :: "'c content_class \<Rightarrow> 'c py_property" where
  "links K = content_property K ''links''"

definition indexes :: "'c content_class \<Rightarrow> 'c py_property" where
  "indexes K = content_property K ''indexes''"

definition delegated_properties :: "'c content_class \<Rightarrow> 'c py_property list" where
  "delegated_properties K =
     [data K, encoded_data K, charset K, content_type K, content_encoding K,
      last_modified K, etag K, usermeta K, links K, indexes K]"

type_synonym 'c py_method =
  "'c RiakObject \<Rightarrow> pyval list \<Rightarrow> kwargs \<Rightarrow> 'c RiakObject \<times> (error + pyval)"

definition add_index :: "'c content_class \<Rightarrow> 'c py_method" where
  "add_index K = content_method K ''add_index''"

definition remove_index :: "'c content_class \<Rightarrow> 'c py_method" where
  "remove_index K = content_method K ''remove_index''"

definition remove_indexes :: "'c content_class \<Rightarrow> 'c py_method" where
  "remove_indexes K = remove_index K"

definition set_index :: "'c content_class \<Rightarrow> 'c py_method" where
  "set_index K = content_method K ''set_index''"

definition add_link :: "'c content_class \<Rightarrow> 'c py_method" where
  "add_link K = content_method K ''add_link''"

subsection \<open>Construction\<close>

text \<open>
  \<^verbatim>\<open>RiakObject.__init__\<close>. Under Python 2 a key that does not encode to ASCII
  is refused; an empty key is refused always. A fresh object holds one fresh content.
\<close>

definition RiakObject_init ::
  "bool \<Rightarrow> 'c content_class \<Rightarrow> RiakBucket \<Rightarrow> string option \<Rightarrow> error + 'c RiakObject" where
  "RiakObject_init PY2 K b k =
     (if PY2 \<and> (case k of None \<Rightarrow> False | Some s \<Rightarrow> list_ex (\<lambda>c. (of_char c :: nat) \<ge> 128) s)
      then Inl (TypeError ''Unicode keys are not supported.'')
      else if k \<noteq> None \<and> length (the k) = 0
      then Inl (ValueError (''Key name must either be '' @ [char_of (34::nat)] @ ''None''
                  @ [char_of (34::nat)] @ '' or a non-empty string.''))
      else Inr \<lparr>resolver_attr = PyNone, bucket = b, key = k, vclock = None,
                siblings = [RiakContent K], py_class = [''RiakObject'']\<rparr>)"

subsection \<open>Existence and the resolver\<close>

definition RiakObject_exists :: "'c content_class \<Rightarrow> 'c RiakObject \<Rightarrow> bool" where
  "RiakObject_exists K self =
     (if length (siblings self) = 0 then False
      else if length (siblings self) > 1 then True
      else content_exists K (siblings self ! 0))"

definition get_resolver :: "'c RiakObject \<Rightarrow> error + pyval" where
  "get_resolver self =
     (if callable (resolver_attr self) then Inr (resolver_attr self)
      else if resolver_attr self = PyNone then Inr (bucket_resolver (bucket self))
      else Inl (TypeError ''resolver is not a function''))"

definition set_resolver :: "'c RiakObject \<Rightarrow> pyval \<Rightarrow> 'c RiakObject \<times> (error + unit)" where
  "set_resolver self v =
     (if v = PyNone \<or> callable v then (self\<lparr>resolver_attr := v\<rparr>, Inr ())
      else (self, Inl (TypeError ''resolver is not a function'')))"

subsection \<open>The transport and the methods that use it\<close>

text \<open>
  The client (\<^verbatim>\<open>riak/client\<close>) is not part of these sources, so it is a parameter:
  each of its three operations receives the object and the keyword arguments of the
  call, may change the object in place, and returns or raises. A method of
  \<^verbatim>\<open>RiakObject\<close> that ends with \<^verbatim>\<open>return self\<close> yields the object as
  its result, next to the state the object is left in.
\<close>

record 'c RiakClient =
  client_put :: "'c RiakObject \<Rightarrow> kwargs \<Rightarrow> 'c RiakObject \<times> (error + pyval)"
  client_get :: "'c RiakObject \<Rightarrow> kwargs \<Rightarrow> 'c RiakObject \<times> (error + pyval)"
  client_delete :: "'c RiakObject \<Rightarrow> kwargs \<Rightarrow> 'c RiakObject \<times> (error + pyval)"

text \<open>
  Modelled from the spec: how a callee reads a keyword argument that has a default,
  as in \<^verbatim>\<open>transport.get(record, r, pr, timeout, basic_quorum=None, notfound_ok=None)\<close>
  of section 6: the value passed, or the default when the caller passed none.
\<close>

definition kwarg :: "kwargs \<Rightarrow> string \<Rightarrow> pyval \<Rightarrow> pyval" where
  "kwarg kws name dflt = (case map_of kws name of None \<Rightarrow> dflt | Some v \<Rightarrow> v)"

definition clear :: "'c RiakObject \<Rightarrow> 'c RiakObject" where
  "clear self = self\<lparr>siblings := []\<rparr>"

definition store ::
  "'c RiakClient \<Rightarrow> 'c RiakObject \<Rightarrow> pyval \<Rightarrow> pyval \<Rightarrow> pyval \<Rightarrow> pyval \<Rightarrow> pyval \<Rightarrow> pyval
     \<Rightarrow> 'c RiakObject \<times> (error + 'c RiakObject)" where
  "store client self w dw pw return_body if_none_match timeout =
     (if length (siblings self) \<noteq> 1
      then (self, Inl (ConflictError
              ''Attempting to store an invalid object, resolve the siblings first''))
      else (case client_put client self
                   [(''w'', w), (''dw'', dw), (''pw'', pw), (''return_body'', return_body),
                    (''if_none_match'', if_none_match), (''timeout'', timeout)] of
              (self', Inl e) \<Rightarrow> (self', Inl e)
            | (self', Inr _) \<Rightarrow> (self', Inr self')))"

definition reload ::
  "'c RiakClient \<Rightarrow> 'c RiakObject \<Rightarrow> pyval \<Rightarrow> pyval \<Rightarrow> pyval \<Rightarrow> pyval \<Rightarrow> pyval
     \<Rightarrow> 'c RiakObject \<times> (error + 'c RiakObject)" where
  "reload client self r pr timeout basic_quorum notfound_ok =
     (case client_get client self [(''r'', r), (''pr'', pr), (''timeout'', timeout)] of
        (self', Inl e) \<Rightarrow> (self', Inl e)
      | (self', Inr _) \<Rightarrow> (self', Inr self'))"

definition delete ::
  "'c RiakClient \<Rightarrow> 'c RiakObject \<Rightarrow> pyval \<Rightarrow> pyval \<Rightarrow> pyval \<Rightarrow> pyval \<Rightarrow> pyval \<Rightarrow> pyval
     \<Rightarrow> 'c RiakObject \<times> (error + 'c RiakObject)" where
  "delete client self r w dw pr pw timeout =
     (case client_delete client self
             [(''r'', r), (''w'', w), (''dw'', dw), (''pr'', pr), (''pw'', pw),
              (''timeout'', timeout)] of
        (self', Inl e) \<Rightarrow> (self', Inl e)
      | (self', Inr _) \<Rightarrow> (clear self', Inr (clear self')))"


subsection \<open>Hashing and equality\<close>

text \<open>
  \<^verbatim>\<open>__hash__\<close> calls the builtin \<^verbatim>\<open>hash\<close> on the tuple of the key, the
  bucket and the vector clock. The builtin is a parameter of the model: how it hashes a
  string, \<^verbatim>\<open>None\<close>, a bucket, an object of a class that defines no
  \<^verbatim>\<open>__hash__\<close> (from the object's identity alone), and a tuple (from the hashes
  of its items). \<^verbatim>\<open>VClock\<close> is such a class, so the hash of the tuple sees the
  identity of the vector clock and never its bytes.
\<close>

type_synonym hashval = "64 word"

record py_hash =
  hash_str :: "string \<Rightarrow> hashval"
  hash_none :: hashval
  hash_bucket :: "RiakBucket \<Rightarrow> hashval"
  hash_object :: "nat \<Rightarrow> hashval"
  hash_tuple :: "hashval list \<Rightarrow> hashval"

definition RiakObject_hash :: "py_hash \<Rightarrow> 'c RiakObject \<Rightarrow> hashval" where
  "RiakObject_hash H self =
     hash_tuple H
       [case key self of None \<Rightarrow> hash_none H | Some k \<Rightarrow> hash_str H k,
        hash_bucket H (bucket self),
        case vclock self of None \<Rightarrow> hash_none H | Some (i, v) \<Rightarrow> hash_object H i]"

text \<open>
  \<^verbatim>\<open>isinstance(other, cls)\<close>: the class of \<open>other\<close> is \<open>cls\<close> or a subclass
  of it, that is, the chain of \<open>cls\<close> ends the chain of \<open>other\<close>.
\<close>

definition isinstance :: "'c RiakObject \<Rightarrow> string list \<Rightarrow> bool" where
  "isinstance other cls = suffix cls (py_class other)"


definition RiakObject_ne :: "py_hash \<Rightarrow> 'c RiakObject \<Rightarrow> 'c RiakObject \<Rightarrow> bool" where
  "RiakObject_ne H self other =
     (if isinstance other (py_class self)
      then RiakObject_hash H self \<noteq> RiakObject_hash H other
      else True)"


section \<open>A concrete interpreter and concrete collaborators\<close>






text \<open>
  Modelled from the spec: a content class whose fields are plain get and set
  (section 4.2), kept as a dictionary of attributes next to the \<^verbatim>\<open>exists\<close>
  flag; an attribute never set reads as \<^verbatim>\<open>None\<close>, and its methods do nothing.
  It serves to run the model on concrete records.
\<close>

type_synonym plain = "(string \<times> pyval) list \<times> bool"

definition plain_content :: "plain content_class" where
  "plain_content =
     \<lparr>RiakContent = ([], False),
      content_getattr = (\<lambda>name c. (c, Inr (case map_of (fst c) name of None \<Rightarrow> PyNone | Some v \<Rightarrow> v))),
      content_setattr = (\<lambda>name v c. (((name, v) # fst c, snd c), Inr ())),
      content_call = (\<lambda>name args kws c. (c, Inr PyNone)),
      content_exists = snd\<rparr>"

text \<open>
  Two transports for concrete runs: one whose calls all return without touching the
  record, and one whose calls all raise.
\<close>

definition transport_ok :: "'c RiakClient" where
  "transport_ok =
     \<lparr>client_put = (\<lambda>self kws. (self, Inr PyNone)),
      client_get = (\<lambda>self kws. (self, Inr PyNone)),
      client_delete = (\<lambda>self kws. (self, Inr PyNone))\<rparr>"

definition transport_down :: "'c RiakClient" where
  "transport_down =
     \<lparr>client_put = (\<lambda>self kws. (self, Inl (OtherError ''connection refused''))),
      client_get = (\<lambda>self kws. (self, Inl (OtherError ''connection refused''))),
      client_delete = (\<lambda>self kws. (self, Inl (OtherError ''connection refused'')))\<rparr>"

text \<open>
  A transport whose \<^verbatim>\<open>get\<close> insists on being told the not-found policy: it
  raises unless the call carries \<^verbatim>\<open>basic_quorum\<close> and \<^verbatim>\<open>notfound_ok\<close>.
\<close>

definition transport_strict :: "'c RiakClient" where
  "transport_strict =
     \<lparr>client_put = (\<lambda>self kws. (self, Inr PyNone)),
      client_get = (\<lambda>self kws.
         if kwarg kws ''basic_quorum'' PyNone = PyNone \<or> kwarg kws ''notfound_ok'' PyNone = PyNone
         then (self, Inl (OtherError ''not-found policy missing''))
         else (self, Inr PyNone)),
      client_delete = (\<lambda>self kws. (self, Inr PyNone))\<rparr>"

text \<open>Concrete records over the plain content class, for concrete runs.\<close>

definition demo_bucket :: RiakBucket where
  "demo_bucket = \<lparr>bucket_name = ''b'', bucket_resolver = PyCallable ''last_written_wins''\<rparr>"

definition demo_record :: "plain list \<Rightarrow> plain RiakObject" where
  "demo_record vs =
     \<lparr>resolver_attr = PyNone, bucket = demo_bucket, key = Some ''k1'', vclock = None,
      siblings = vs, py_class = [''RiakObject'']\<rparr>"

definition version_a :: plain where
  "version_a = ([(''data'', PyStr ''a'')], True)"

definition version_b :: plain where
  "version_b = ([(''data'', PyStr ''b'')], True)"

definition tombstone :: plain where
  "tombstone = ([], False)"



section \<open>Properties of the delegation\<close>

lemma getter_conflict:
  "1 < length (siblings self) \<Longrightarrow>
     content_property_getter K name self = (self, Inl (ConflictError []))"
  by (cases "siblings self") (simp_all add: content_property_getter_def)

lemma setter_conflict:
  "1 < length (siblings self) \<Longrightarrow>
     content_property_setter K name self v = (self, Inl (ConflictError []))"
  by (cases "siblings self") (simp_all add: content_property_setter_def)

lemma method_not_single:
  "length (siblings self) \<noteq> 1 \<Longrightarrow>
     content_method K name self args kws = (self, Inl (ConflictError []))"
  by (simp add: content_method_def)

lemma method_success_single:
  "snd (content_method K name self args kws) = Inr res \<Longrightarrow> length (siblings self) = 1"
  by (cases "length (siblings self) = 1") (simp_all add: content_method_def)

lemma delegated_properties_names:
  "p \<in> set (delegated_properties K) \<Longrightarrow> \<exists>name. p = content_property K name"
  by (auto simp add: delegated_properties_def data_def encoded_data_def charset_def
        content_type_def content_encoding_def last_modified_def etag_def usermeta_def
        links_def indexes_def)

lemma getter_empty:
  "length (siblings self) = 0 \<Longrightarrow> content_property_getter K name self = (self, Inr PyNone)"
  by (simp add: content_property_getter_def)

lemma setter_empty:
  "length (siblings self) = 0 \<Longrightarrow>
     content_property_setter K name self v =
       (self\<lparr>siblings := [fst (content_setattr K name v (RiakContent K))]\<rparr>,
        snd (content_setattr K name v (RiakContent K)))"
  by (simp add: content_property_setter_def split: prod.splits)

lemma store_conflict:
  "length (siblings self) \<noteq> 1 \<Longrightarrow>
     store client self w dw pw return_body if_none_match timeout =
       (self, Inl (ConflictError
          ''Attempting to store an invalid object, resolve the siblings first''))"
  by (simp add: store_def)

lemma reload_returns:
  "client_get client self [(''r'', r), (''pr'', pr), (''timeout'', timeout)] = (self', Inr x) \<Longrightarrow>
     reload client self r pr timeout basic_quorum notfound_ok = (self', Inr self')"
  by (simp add: reload_def)

lemma delete_returns:
  "client_delete client self
      [(''r'', r), (''w'', w), (''dw'', dw), (''pr'', pr), (''pw'', pw), (''timeout'', timeout)]
     = (self', Inr x) \<Longrightarrow>
   delete client self r w dw pr pw timeout = (clear self', Inr (clear self'))"
  by (simp add: delete_def)

lemma delete_raises:
  "client_delete client self
      [(''r'', r), (''w'', w), (''dw'', dw), (''pr'', pr), (''pw'', pw), (''timeout'', timeout)]
     = (self', Inl e) \<Longrightarrow>
   delete client self r w dw pr pw timeout = (self', Inl e)"
  by (simp add: delete_def)

text \<open>
  Claim C1. A record that holds more than one sibling is in conflict: the getter and
  the setter of each of the ten delegated fields raise \<^verbatim>\<open>ConflictError\<close> and
  leave the record as it is, so do \<^verbatim>\<open>add_link\<close>, \<^verbatim>\<open>add_index\<close>,
  \<^verbatim>\<open>set_index\<close> and \<^verbatim>\<open>remove_index\<close>, and so does \<^verbatim>\<open>store\<close>.
  \<^verbatim>\<open>reload\<close> and \<^verbatim>\<open>delete\<close> have no such guard: whenever the transport's
  call returns, they return the record.
\<close>

theorem conflicted_record_guard:
  assumes "1 < length (siblings self)"
  shows "(\<forall>p \<in> set (delegated_properties K).
            fst p self = (self, Inl (ConflictError [])) \<and>
            (\<forall>v. snd p self v = (self, Inl (ConflictError [])))) \<and>
         (\<forall>m \<in> {add_link K, add_index K, set_index K, remove_index K}.
            \<forall>args kws. m self args kws = (self, Inl (ConflictError []))) \<and>
         store client self w dw pw return_body if_none_match t1 =
           (self, Inl (ConflictError
              ''Attempting to store an invalid object, resolve the siblings first'')) \<and>
         (\<forall>self' x.
            client_get client self [(''r'', r), (''pr'', pr), (''timeout'', t2)] = (self', Inr x)
            \<longrightarrow> reload client self r pr t2 basic_quorum notfound_ok = (self', Inr self')) \<and>
         (\<forall>self' x.
            client_delete client self
              [(''r'', r'), (''w'', w'), (''dw'', dw'), (''pr'', pr'), (''pw'', pw'),
               (''timeout'', t3)] = (self', Inr x)
            \<longrightarrow> delete client self r' w' dw' pr' pw' t3 = (clear self', Inr (clear self')))"
proof (intro conjI ballI allI impI)
  fix p v
  assume "p \<in> set (delegated_properties K)"
  then obtain name where p: "p = content_property K name"
    using delegated_properties_names by blast
  show "fst p self = (self, Inl (ConflictError []))"
    using assms by (simp add: p content_property_def getter_conflict)
  show "snd p self v = (self, Inl (ConflictError []))"
    using assms by (simp add: p content_property_def setter_conflict)
next
  fix m args kws
  assume "m \<in> {add_link K, add_index K, set_index K, remove_index K}"
  then consider "m = add_link K" | "m = add_index K" | "m = set_index K" | "m = remove_index K"
    by blast
  then show "m self args kws = (self, Inl (ConflictError []))"
    using assms
    by cases (simp_all add: add_link_def add_index_def set_index_def remove_index_def
                method_not_single)
next
  show "store client self w dw pw return_body if_none_match t1 =
          (self, Inl (ConflictError
             ''Attempting to store an invalid object, resolve the siblings first''))"
    using assms by (simp add: store_conflict)
next
  fix self' x
  assume "client_get client self [(''r'', r), (''pr'', pr), (''timeout'', t2)] = (self', Inr x)"
  then show "reload client self r pr t2 basic_quorum notfound_ok = (self', Inr self')"
    by (rule reload_returns)
next
  fix self' x
  assume "client_delete client self
            [(''r'', r'), (''w'', w'), (''dw'', dw'), (''pr'', pr'), (''pw'', pw'),
             (''timeout'', t3)] = (self', Inr x)"
  then show "delete client self r' w' dw' pr' pw' t3 = (clear self', Inr (clear self'))"
    by (rule delete_returns)
qed

theorem conflicted_record_guard_witness:
  "fst (data plain_content) (demo_record [version_a, version_b])
     = (demo_record [version_a, version_b], Inl (ConflictError [])) \<and>
   snd (content_type plain_content) (demo_record [version_a, version_b]) (PyStr ''text/plain'')
     = (demo_record [version_a, version_b], Inl (ConflictError [])) \<and>
   add_link plain_content (demo_record [version_a, version_b])
       [PyStr ''b'', PyStr ''k2'', PyStr ''friend''] []
     = (demo_record [version_a, version_b], Inl (ConflictError [])) \<and>
   store transport_ok (demo_record [version_a, version_b])
       PyNone PyNone PyNone (PyBool True) (PyBool False) PyNone
     = (demo_record [version_a, version_b], Inl (ConflictError
          ''Attempting to store an invalid object, resolve the siblings first'')) \<and>
   reload transport_ok (demo_record [version_a, version_b]) PyNone PyNone PyNone PyNone PyNone
     = (demo_record [version_a, version_b], Inr (demo_record [version_a, version_b])) \<and>
   delete transport_ok (demo_record [version_a, version_b])
       PyNone PyNone PyNone PyNone PyNone PyNone
     = (demo_record [], Inr (demo_record []))"
proof -
  have h: "1 < length (siblings (demo_record [version_a, version_b]))"
    by (simp add: demo_record_def)
  have c: "clear (demo_record [version_a, version_b]) = demo_record []"
    by (simp add: clear_def demo_record_def)
  note T = conflicted_record_guard [OF h, where K = plain_content and client = transport_ok]
  have g: "client_get transport_ok (demo_record [version_a, version_b]) kws
             = (demo_record [version_a, version_b], Inr PyNone)" for kws
    by (simp add: transport_ok_def)
  have d: "client_delete transport_ok (demo_record [version_a, version_b]) kws
             = (demo_record [version_a, version_b], Inr PyNone)" for kws
    by (simp add: transport_ok_def)
  note p = T [THEN conjunct1]
  note m = T [THEN conjunct2, THEN conjunct1]
  note s = T [THEN conjunct2, THEN conjunct2, THEN conjunct1]
  note r = T [THEN conjunct2, THEN conjunct2, THEN conjunct2, THEN conjunct1, rule_format, OF g]
  note dl = T [THEN conjunct2, THEN conjunct2, THEN conjunct2, THEN conjunct2, rule_format, OF d]
  from p m s r dl c show ?thesis
    by (simp add: delegated_properties_def)
qed

text \<open>
  Claim C3. \<^verbatim>\<open>exists\<close> is false exactly when the record holds no sibling, or
  holds one sibling and that sibling is a tombstone. With more than one sibling it is
  true whatever the siblings are, and with a single sibling that is no tombstone it is
  true.
\<close>

theorem exists_characterisation:
  "(\<not> RiakObject_exists K self \<longleftrightarrow>
      length (siblings self) = 0 \<or>
      (length (siblings self) = 1 \<and> \<not> content_exists K (siblings self ! 0))) \<and>
   (1 < length (siblings self) \<longrightarrow> RiakObject_exists K self) \<and>
   (length (siblings self) = 1 \<and> content_exists K (siblings self ! 0)
      \<longrightarrow> RiakObject_exists K self)"
proof (cases "siblings self")
  case Nil
  then show ?thesis by (simp add: RiakObject_exists_def)
next
  case (Cons c cs)
  then show ?thesis by (cases cs) (simp_all add: RiakObject_exists_def)
qed

theorem exists_characterisation_witness:
  "\<not> RiakObject_exists plain_content (demo_record []) \<and>
   \<not> RiakObject_exists plain_content (demo_record [tombstone]) \<and>
   RiakObject_exists plain_content (demo_record [tombstone, tombstone]) \<and>
   RiakObject_exists plain_content (demo_record [version_a])"
proof -
  have l0: "length (siblings (demo_record [])) = 0"
    and l1: "length (siblings (demo_record [tombstone])) = 1"
            "\<not> content_exists plain_content (siblings (demo_record [tombstone]) ! 0)"
    and l2: "1 < length (siblings (demo_record [tombstone, tombstone]))"
    and l3: "length (siblings (demo_record [version_a])) = 1 \<and>
             content_exists plain_content (siblings (demo_record [version_a]) ! 0)"
    by (simp_all add: demo_record_def plain_content_def tombstone_def version_a_def)
  have "\<not> RiakObject_exists plain_content (demo_record [])"
    using exists_characterisation [of plain_content "demo_record []"] l0 by blast
  moreover have "\<not> RiakObject_exists plain_content (demo_record [tombstone])"
    using exists_characterisation [of plain_content "demo_record [tombstone]"] l1 by blast
  moreover have "RiakObject_exists plain_content (demo_record [tombstone, tombstone])"
    using exists_characterisation [of plain_content "demo_record [tombstone, tombstone]"] l2
    by blast
  moreover have "RiakObject_exists plain_content (demo_record [version_a])"
    using exists_characterisation [of plain_content "demo_record [version_a]"] l3 by blast
  ultimately show ?thesis by blast
qed

text \<open>
  Claim C9. Reading \<^verbatim>\<open>resolver\<close> returns the record's own resolver when it is
  callable, the bucket's resolver when the record has none, and raises
  \<^verbatim>\<open>TypeError\<close> when the record's resolver is neither callable nor
  \<^verbatim>\<open>None\<close>. Setting it stores \<^verbatim>\<open>None\<close> or a callable, and raises the same
  \<^verbatim>\<open>TypeError\<close> for any other value, leaving the record as it is.
\<close>

theorem resolver_property:
  "(callable (resolver_attr self) \<longrightarrow> get_resolver self = Inr (resolver_attr self)) \<and>
   (resolver_attr self = PyNone \<longrightarrow> get_resolver self = Inr (bucket_resolver (bucket self))) \<and>
   (\<not> callable (resolver_attr self) \<and> resolver_attr self \<noteq> PyNone
      \<longrightarrow> get_resolver self = Inl (TypeError ''resolver is not a function'')) \<and>
   (v = PyNone \<or> callable v
      \<longrightarrow> set_resolver self v = (self\<lparr>resolver_attr := v\<rparr>, Inr ())) \<and>
   (v \<noteq> PyNone \<and> \<not> callable v
      \<longrightarrow> set_resolver self v = (self, Inl (TypeError ''resolver is not a function'')))"
  by (auto simp add: get_resolver_def set_resolver_def)

theorem resolver_property_witness:
  "get_resolver ((demo_record [version_a])\<lparr>resolver_attr := PyCallable ''pick_b''\<rparr>)
     = Inr (PyCallable ''pick_b'') \<and>
   get_resolver (demo_record [version_a]) = Inr (PyCallable ''last_written_wins'') \<and>
   get_resolver ((demo_record [version_a])\<lparr>resolver_attr := PyInt 3\<rparr>)
     = Inl (TypeError ''resolver is not a function'') \<and>
   set_resolver (demo_record [version_a]) (PyCallable ''pick_b'')
     = ((demo_record [version_a])\<lparr>resolver_attr := PyCallable ''pick_b''\<rparr>, Inr ()) \<and>
   set_resolver ((demo_record [version_a])\<lparr>resolver_attr := PyCallable ''pick_b''\<rparr>) PyNone
     = (demo_record [version_a], Inr ()) \<and>
   set_resolver (demo_record [version_a]) (PyStr ''pick_b'')
     = (demo_record [version_a], Inl (TypeError ''resolver is not a function''))"
proof -
  note A = resolver_property
    [of "(demo_record [version_a])\<lparr>resolver_attr := PyCallable ''pick_b''\<rparr>" PyNone]
  note B = resolver_property [of "demo_record [version_a]" "PyCallable ''pick_b''"]
  note C = resolver_property
    [of "(demo_record [version_a])\<lparr>resolver_attr := PyInt 3\<rparr>" "PyStr ''pick_b''"]
  note D = resolver_property [of "demo_record [version_a]" "PyStr ''pick_b''"]
  from A B C D show ?thesis
    by (simp add: demo_record_def demo_bucket_def)
qed

text \<open>
  Claim C5. On a record that holds no sibling, the getter of each of the ten delegated
  fields returns \<^verbatim>\<open>None\<close> and leaves the record as it is; the setter of each
  first puts one fresh content into the record and then sets the attribute on that
  content, so the record ends with exactly one sibling, the fresh content after the
  assignment.
\<close>

theorem empty_record_properties:
  assumes "length (siblings self) = 0"
  shows "(\<forall>p \<in> set (delegated_properties K).
            fst p self = (self, Inr PyNone) \<and>
            (\<forall>v. length (siblings (fst (snd p self v))) = 1)) \<and>
         (\<forall>name v.
            fst (content_property K name) self = (self, Inr PyNone) \<and>
            snd (content_property K name) self v =
              (self\<lparr>siblings := [fst (content_setattr K name v (RiakContent K))]\<rparr>,
               snd (content_setattr K name v (RiakContent K))))"
proof (intro conjI ballI allI)
  fix p v
  assume "p \<in> set (delegated_properties K)"
  then obtain name where p: "p = content_property K name"
    using delegated_properties_names by blast
  show "fst p self = (self, Inr PyNone)"
    using assms by (simp add: p content_property_def getter_empty)
  show "length (siblings (fst (snd p self v))) = 1"
    using assms by (simp add: p content_property_def setter_empty)
next
  fix name v
  show "fst (content_property K name) self = (self, Inr PyNone)"
    using assms by (simp add: content_property_def getter_empty)
  show "snd (content_property K name) self v =
          (self\<lparr>siblings := [fst (content_setattr K name v (RiakContent K))]\<rparr>,
           snd (content_setattr K name v (RiakContent K)))"
    using assms by (simp add: content_property_def setter_empty)
qed

theorem empty_record_properties_witness:
  "fst (data plain_content) (demo_record []) = (demo_record [], Inr PyNone) \<and>
   fst (usermeta plain_content) (demo_record []) = (demo_record [], Inr PyNone) \<and>
   snd (data plain_content) (demo_record []) (PyStr ''hello'')
     = (demo_record [([(''data'', PyStr ''hello'')], False)], Inr ()) \<and>
   length (siblings (fst (snd (content_type plain_content) (demo_record [])
                            (PyStr ''text/plain'')))) = 1"
proof -
  have h: "length (siblings (demo_record [])) = 0"
    by (simp add: demo_record_def)
  note T = empty_record_properties [OF h, where K = plain_content]
  note p = T [THEN conjunct1]
  note n = T [THEN conjunct2, rule_format, of "''data''" "PyStr ''hello''", THEN conjunct2]
  have f: "(demo_record [])\<lparr>siblings :=
              [fst (content_setattr plain_content ''data'' (PyStr ''hello'')
                      (RiakContent plain_content))]\<rparr>
           = demo_record [([(''data'', PyStr ''hello'')], False)]"
          "snd (content_setattr plain_content ''data'' (PyStr ''hello'')
                  (RiakContent plain_content)) = Inr ()"
    by (simp_all add: demo_record_def plain_content_def)
  from p n f show ?thesis
    by (simp add: delegated_properties_def data_def)
qed

text \<open>
  Claim C10. On a record that holds no sibling, \<^verbatim>\<open>add_link\<close>,
  \<^verbatim>\<open>add_index\<close>, \<^verbatim>\<open>set_index\<close>, \<^verbatim>\<open>remove_index\<close> and
  \<^verbatim>\<open>remove_indexes\<close> raise \<^verbatim>\<open>ConflictError\<close> and put no content into the
  record, unlike the setters of the delegated fields. Whenever one of these methods
  returns, the record holds exactly one sibling.
\<close>

theorem empty_record_methods:
  "(length (siblings self) = 0 \<longrightarrow>
      (\<forall>m \<in> {add_link K, add_index K, set_index K, remove_index K, remove_indexes K}.
         m self args kws = (self, Inl (ConflictError [])))) \<and>
   (\<forall>m \<in> {add_link K, add_index K, set_index K, remove_index K, remove_indexes K}.
      \<forall>res. snd (m self args kws) = Inr res \<longrightarrow> length (siblings self) = 1)"
proof (intro conjI impI ballI allI)
  fix m
  assume e: "length (siblings self) = 0"
    and "m \<in> {add_link K, add_index K, set_index K, remove_index K, remove_indexes K}"
  then obtain name where m: "m = content_method K name"
    by (auto simp add: add_link_def add_index_def set_index_def remove_index_def
          remove_indexes_def)
  from e show "m self args kws = (self, Inl (ConflictError []))"
    by (simp add: m method_not_single)
next
  fix m res
  assume "m \<in> {add_link K, add_index K, set_index K, remove_index K, remove_indexes K}"
    and r: "snd (m self args kws) = Inr res"
  then obtain name where m: "m = content_method K name"
    by (auto simp add: add_link_def add_index_def set_index_def remove_index_def
          remove_indexes_def)
  from r show "length (siblings self) = 1"
    unfolding m by (rule method_success_single)
qed

theorem empty_record_methods_witness:
  "add_index plain_content (demo_record []) [PyStr ''age_int'', PyInt 30] []
     = (demo_record [], Inl (ConflictError [])) \<and>
   remove_indexes plain_content (demo_record []) [PyStr ''age_int'', PyInt 30] []
     = (demo_record [], Inl (ConflictError [])) \<and>
   snd (add_index plain_content (demo_record [version_a]) [PyStr ''age_int'', PyInt 30] [])
     = Inr PyNone \<and>
   length (siblings (demo_record [version_a])) = 1"
proof -
  have h: "length (siblings (demo_record [])) = 0"
    by (simp add: demo_record_def)
  note A = empty_record_methods
    [of "demo_record []" plain_content "[PyStr ''age_int'', PyInt 30]" "[]",
     THEN conjunct1, rule_format, OF h]
  have r: "snd (add_index plain_content (demo_record [version_a])
                  [PyStr ''age_int'', PyInt 30] []) = Inr PyNone"
    by (simp add: add_index_def content_method_def demo_record_def plain_content_def)
  note B = empty_record_methods
    [of "demo_record [version_a]" plain_content "[PyStr ''age_int'', PyInt 30]" "[]",
     THEN conjunct2, rule_format, of "add_index plain_content" PyNone, OF _ r]
  have "add_index plain_content (demo_record []) [PyStr ''age_int'', PyInt 30] []
          = (demo_record [], Inl (ConflictError []))"
    by (rule A) simp
  moreover have "remove_indexes plain_content (demo_record []) [PyStr ''age_int'', PyInt 30] []
          = (demo_record [], Inl (ConflictError []))"
    by (rule A) simp
  moreover have "length (siblings (demo_record [version_a])) = 1"
    by (rule B) simp
  ultimately show ?thesis using r by simp
qed

section \<open>The base64 codec decodes what it encodes\<close>

lemma and_3: "(a::byte) AND 3 = take_bit 2 a"
  using take_bit_eq_mask [of 2 a] by (simp add: mask_eq_exp_minus_1)

lemma and_15: "(a::byte) AND 15 = take_bit 4 a"
  using take_bit_eq_mask [of 4 a] by (simp add: mask_eq_exp_minus_1)

lemma and_63: "(a::byte) AND 63 = take_bit 6 a"
  using take_bit_eq_mask [of 6 a] by (simp add: mask_eq_exp_minus_1)

lemma bit_positions: "k < 8 \<Longrightarrow> k \<in> {7, 6, 5, 4, 3, 2, 1, 0::nat}"
  by auto

text \<open>The three bytes of a group come back from its four six-bit values.\<close>

lemma group_byte0:
  "push_bit 2 (drop_bit 2 a) OR drop_bit 4 (push_bit 4 (a AND 3) OR drop_bit 4 b) = (a::byte)"
proof (rule bit_word_eqI)
  fix n assume "n < LENGTH(8)"
  then have "n < 8" by simp
  from bit_positions [OF this]
  show "bit (push_bit 2 (drop_bit 2 a) OR drop_bit 4 (push_bit 4 (a AND 3) OR drop_bit 4 b)) n
          = bit a n"
    by (elim insertE emptyE) (simp_all add: bit_simps and_3)
qed

lemma group_byte1:
  "push_bit 4 ((push_bit 4 (a AND 3) OR drop_bit 4 b) AND 15)
     OR drop_bit 2 (push_bit 2 (b AND 15) OR drop_bit 6 c) = (b::byte)"
proof (rule bit_word_eqI)
  fix n assume "n < LENGTH(8)"
  then have "n < 8" by simp
  from bit_positions [OF this]
  show "bit (push_bit 4 ((push_bit 4 (a AND 3) OR drop_bit 4 b) AND 15)
               OR drop_bit 2 (push_bit 2 (b AND 15) OR drop_bit 6 c)) n = bit b n"
    by (elim insertE emptyE) (simp_all add: bit_simps and_3 and_15)
qed

lemma group_byte2:
  "push_bit 6 ((push_bit 2 (b AND 15) OR drop_bit 6 c) AND 3) OR (c AND 63) = (c::byte)"
proof (rule bit_word_eqI)
  fix n assume "n < LENGTH(8)"
  then have "n < 8" by simp
  from bit_positions [OF this]
  show "bit (push_bit 6 ((push_bit 2 (b AND 15) OR drop_bit 6 c) AND 3) OR (c AND 63)) n
          = bit c n"
    by (elim insertE emptyE) (simp_all add: bit_simps and_3 and_15 and_63)
qed

text \<open>The two tables are inverse on the 64 six-bit values, and no letter is the pad.\<close>

lemma alphabet_length: "length b64_alphabet = 64"
  by (simp add: b64_alphabet_def)

lemma alphabet_distinct: "distinct b64_alphabet"
  by (simp add: b64_alphabet_def)

lemma alphabet_no_pad: "BASE64_PAD \<notin> set b64_alphabet"
  by (simp add: b64_alphabet_def BASE64_PAD_def)

lemma table_roundtrip:
  assumes "unat v < 64"
  shows "table_a2b_base64 (table_b2a_base64 v) = Some v"
proof -
  have "map_of (zip b64_alphabet (map of_nat [0..<64])) (b64_alphabet ! unat v)
          = Some ((map of_nat [0..<64] :: byte list) ! unat v)"
    using assms by (intro map_of_zip_nth) (simp_all add: alphabet_length alphabet_distinct)
  moreover have "(map of_nat [0..<64] :: byte list) ! unat v = v"
    using assms by simp
  ultimately show ?thesis
    by (simp add: table_a2b_base64_def table_b2a_base64_def)
qed

lemma table_not_pad:
  assumes "unat v < 64"
  shows "table_b2a_base64 v \<noteq> BASE64_PAD"
proof -
  have "table_b2a_base64 v \<in> set b64_alphabet"
    using assms by (simp add: table_b2a_base64_def alphabet_length)
  then show ?thesis using alphabet_no_pad by auto
qed

lemma six_bits:
  assumes "take_bit 6 v = (v::byte)"
  shows "unat v < 64"
proof -
  have "unat (take_bit 6 v) = take_bit 6 (unat v)"
    by (simp add: unsigned_take_bit_eq)
  then have "unat v = take_bit 6 (unat v)" using assms by simp
  moreover have "take_bit 6 (unat v) < (2::nat) ^ 6" by (rule take_bit_nat_less_exp)
  ultimately show ?thesis by simp
qed

lemma idx0_bound: "unat (drop_bit 2 (a::byte)) < 64"
proof (rule six_bits, rule bit_word_eqI)
  fix n assume "n < LENGTH(8)"
  then have "n < 8" by simp
  from bit_positions [OF this]
  show "bit (take_bit 6 (drop_bit 2 a)) n = bit (drop_bit 2 a) n"
    by (elim insertE emptyE) (auto simp add: bit_simps dest: bit_imp_le_length)
qed

lemma idx1_bound: "unat (push_bit 4 ((a::byte) AND 3) OR drop_bit 4 b) < 64"
proof (rule six_bits, rule bit_word_eqI)
  fix n assume "n < LENGTH(8)"
  then have "n < 8" by simp
  from bit_positions [OF this]
  show "bit (take_bit 6 (push_bit 4 (a AND 3) OR drop_bit 4 b)) n
          = bit (push_bit 4 (a AND 3) OR drop_bit 4 b) n"
    by (elim insertE emptyE) (auto simp add: bit_simps and_3 dest: bit_imp_le_length)
qed

lemma idx2_bound: "unat (push_bit 2 ((b::byte) AND 15) OR drop_bit 6 c) < 64"
proof (rule six_bits, rule bit_word_eqI)
  fix n assume "n < LENGTH(8)"
  then have "n < 8" by simp
  from bit_positions [OF this]
  show "bit (take_bit 6 (push_bit 2 (b AND 15) OR drop_bit 6 c)) n
          = bit (push_bit 2 (b AND 15) OR drop_bit 6 c) n"
    by (elim insertE emptyE) (auto simp add: bit_simps and_15 dest: bit_imp_le_length)
qed

lemma idx3_bound: "unat ((c::byte) AND 63) < 64"
proof (rule six_bits, rule bit_word_eqI)
  fix n assume "n < LENGTH(8)"
  then have "n < 8" by simp
  from bit_positions [OF this]
  show "bit (take_bit 6 (c AND 63)) n = bit (c AND 63) n"
    by (elim insertE emptyE) (auto simp add: bit_simps and_63 dest: bit_imp_le_length)
qed

lemma or_zero_byte: "x OR drop_bit k (0::byte) = x"
  by simp

lemma idx1_tail_bound: "unat (push_bit 4 ((a::byte) AND 3)) < 64"
  using idx1_bound [of a 0] by (simp only: or_zero_byte)

lemma idx2_tail_bound: "unat (push_bit 2 ((b::byte) AND 15)) < 64"
  using idx2_bound [of b 0] by (simp only: or_zero_byte)

lemma tail_byte0:
  "push_bit 2 (drop_bit 2 a) OR drop_bit 4 (push_bit 4 (a AND 3)) = (a::byte)"
  using group_byte0 [of a 0] by (simp only: or_zero_byte)

lemma tail_byte1:
  "push_bit 4 ((push_bit 4 (a AND 3) OR drop_bit 4 b) AND 15)
     OR drop_bit 2 (push_bit 2 (b AND 15)) = (b::byte)"
  using group_byte1 [of a b 0] by (simp only: or_zero_byte)

text \<open>One step of the decoder on a letter of the alphabet, by position in the group.\<close>

lemma loop_q0:
  "unat v < 64 \<Longrightarrow>
     a2b_base64_loop (table_b2a_base64 v # rest) 0 p l out = a2b_base64_loop rest 1 0 v out"
  using table_roundtrip [of v] table_not_pad [of v] by simp

lemma loop_q1:
  "unat v < 64 \<Longrightarrow>
     a2b_base64_loop (table_b2a_base64 v # rest) (Suc 0) p l out =
       a2b_base64_loop rest 2 0 (v AND 15) (out @ [push_bit 2 l OR drop_bit 4 v])"
  using table_roundtrip [of v] table_not_pad [of v] by simp

lemma loop_q2:
  "unat v < 64 \<Longrightarrow>
     a2b_base64_loop (table_b2a_base64 v # rest) 2 p l out =
       a2b_base64_loop rest 3 0 (v AND 3) (out @ [push_bit 4 l OR drop_bit 2 v])"
  using table_roundtrip [of v] table_not_pad [of v] by simp

lemma loop_q3:
  "unat v < 64 \<Longrightarrow>
     a2b_base64_loop (table_b2a_base64 v # rest) 3 p l out =
       a2b_base64_loop rest 0 0 0 (out @ [push_bit 6 l OR v])"
  using table_roundtrip [of v] table_not_pad [of v] by simp

lemma loop_pad2: "a2b_base64_loop (BASE64_PAD # BASE64_PAD # rest) 2 0 l out = Inr out"
  by simp

lemma loop_pad3: "a2b_base64_loop (BASE64_PAD # rest) 3 0 l out = Inr out"
  by simp

lemma loop_full_group:
  "a2b_base64_loop (b2a_base64 (a # b # c # xs)) 0 p l out =
     a2b_base64_loop (b2a_base64 xs) 0 0 0 (out @ [a, b, c])"
proof -
  have "a2b_base64_loop (b2a_base64 (a # b # c # xs)) 0 p l out =
        a2b_base64_loop (b2a_base64 xs) 0 0 0
          (((out @ [push_bit 2 (drop_bit 2 a)
                      OR drop_bit 4 (push_bit 4 (a AND 3) OR drop_bit 4 b)])
             @ [push_bit 4 ((push_bit 4 (a AND 3) OR drop_bit 4 b) AND 15)
                  OR drop_bit 2 (push_bit 2 (b AND 15) OR drop_bit 6 c)])
             @ [push_bit 6 ((push_bit 2 (b AND 15) OR drop_bit 6 c) AND 3) OR (c AND 63)])"
    by (simp only: b2a_base64.simps loop_q0 [OF idx0_bound] One_nat_def
          loop_q1 [OF idx1_bound] loop_q2 [OF idx2_bound] loop_q3 [OF idx3_bound])
  then show ?thesis
    by (simp only: group_byte0 group_byte1 group_byte2 append_assoc append_Cons append_Nil)
qed

lemma loop_one_byte:
  "a2b_base64_loop (b2a_base64 [a]) 0 p l out = Inr (out @ [a])"
  by (simp only: b2a_base64.simps loop_q0 [OF idx0_bound] One_nat_def
        loop_q1 [OF idx1_tail_bound] loop_pad2 tail_byte0)

lemma loop_two_bytes:
  "a2b_base64_loop (b2a_base64 [a, b]) 0 p l out = Inr (out @ [a, b])"
proof -
  have "a2b_base64_loop (b2a_base64 [a, b]) 0 p l out =
        Inr ((out @ [push_bit 2 (drop_bit 2 a)
                       OR drop_bit 4 (push_bit 4 (a AND 3) OR drop_bit 4 b)])
               @ [push_bit 4 ((push_bit 4 (a AND 3) OR drop_bit 4 b) AND 15)
                    OR drop_bit 2 (push_bit 2 (b AND 15))])"
    by (simp only: b2a_base64.simps loop_q0 [OF idx0_bound] One_nat_def
          loop_q1 [OF idx1_bound] loop_q2 [OF idx2_tail_bound] loop_pad3)
  then show ?thesis
    by (simp only: group_byte0 tail_byte1 append_assoc append_Cons append_Nil)
qed

lemma loop_b2a:
  "a2b_base64_loop (b2a_base64 xs) 0 p l out = Inr (out @ xs)"
proof (induction xs arbitrary: p l out rule: b2a_base64.induct)
  case 1
  show ?case by simp
next
  case (2 a)
  show ?case by (rule loop_one_byte)
next
  case (3 a b)
  show ?case by (rule loop_two_bytes)
next
  case (4 a b c rest)
  show ?case unfolding loop_full_group by (simp add: "4.IH")
qed

lemma b64decode_b64encode: "b64encode xs = Inr s \<Longrightarrow> b64decode s = Inr xs"
  by (auto simp add: b64encode_def b64decode_def a2b_base64_def loop_b2a)

section \<open>Properties of the vector clock\<close>

lemma VClock_init_supported:
  "VClock_init b ''base64'' =
     (case b64decode b of Inl e \<Rightarrow> Inl e | Inr x \<Rightarrow> Inr \<lparr>raw_vclock = x\<rparr>)"
  "VClock_init b ''binary'' = Inr \<lparr>raw_vclock = b\<rparr>"
  by (simp_all add: VClock_init_def decoders_def py_bytes_def)

lemma encode_supported:
  "encode v ''base64'' = b64encode (raw_vclock v)"
  "encode v ''binary'' = Inr (raw_vclock v)"
  by (simp_all add: encode_def encoders_def py_bytes_def)

lemma unsupported_decoding:
  "encoding \<noteq> ''base64'' \<Longrightarrow> encoding \<noteq> ''binary'' \<Longrightarrow>
     VClock_init b encoding = Inl (KeyError encoding)"
  by (simp add: VClock_init_def decoders_def)

lemma unsupported_encoding:
  "encoding \<noteq> ''base64'' \<Longrightarrow> encoding \<noteq> ''binary'' \<Longrightarrow>
     encode v encoding = Inl (ValueError (encoding @ '' is not a valid vector clock encoding''))"
  by (simp add: encode_def encoders_def)

text \<open>
  Claim C7. With an encoding name other than the two supported ones, for instance
  \<^verbatim>\<open>hex\<close>, \<^verbatim>\<open>encode\<close> raises \<^verbatim>\<open>ValueError\<close> with the message of an
  invalid encoding, while the constructor raises \<^verbatim>\<open>KeyError\<close> from the
  dictionary lookup: the two operations do not fail with the same error.
\<close>

theorem unsupported_encoding_hex:
  "VClock_init b ''hex'' = Inl (KeyError ''hex'') \<and>
   encode v ''hex'' = Inl (ValueError ''hex is not a valid vector clock encoding'') \<and>
   VClock_init b ''hex'' \<noteq> Inl (ValueError ''hex is not a valid vector clock encoding'')"
  using unsupported_decoding [of "''hex''" b] unsupported_encoding [of "''hex''" v] by simp

text \<open>
  Claim C8. For supported encoding names \<open>e1\<close> and \<open>e2\<close> and bytes \<open>b\<close> that
  decode under \<open>e1\<close> to the vector clock \<open>v\<close>: encoding \<open>v\<close> under \<open>e2\<close>
  succeeds, and decoding the result under \<open>e2\<close> gives a vector clock with the raw
  bytes of \<open>v\<close>.
\<close>

theorem vclock_roundtrip:
  assumes "e1 \<in> {''base64'', ''binary''}" and "e2 \<in> {''base64'', ''binary''}"
    and "VClock_init b e1 = Inr v"
  shows "\<exists>s. encode v e2 = Inr s \<and>
             (\<exists>v'. VClock_init s e2 = Inr v' \<and> raw_vclock v' = raw_vclock v)"
proof -
  from assms(2) consider "e2 = ''base64''" | "e2 = ''binary''" by blast
  then show ?thesis
  proof cases
    case 1
    have "encode v e2 = Inr (b2a_base64 (raw_vclock v))"
      by (simp add: 1 encode_supported b64encode_def)
    moreover have "VClock_init (b2a_base64 (raw_vclock v)) e2 = Inr \<lparr>raw_vclock = raw_vclock v\<rparr>"
      by (simp add: 1 VClock_init_supported b64decode_b64encode [of "raw_vclock v"]
            b64encode_def)
    ultimately show ?thesis by simp
  next
    case 2
    have "encode v e2 = Inr (raw_vclock v)"
      by (simp add: 2 encode_supported)
    moreover have "VClock_init (raw_vclock v) e2 = Inr \<lparr>raw_vclock = raw_vclock v\<rparr>"
      by (simp add: 2 VClock_init_supported)
    ultimately show ?thesis by simp
  qed
qed

theorem vclock_roundtrip_witness:
  "VClock_init (map of_char ''aGVsbG8='') ''base64'' = Inr \<lparr>raw_vclock = map of_char ''hello''\<rparr> \<and>
   (\<exists>s. encode \<lparr>raw_vclock = map of_char ''hello''\<rparr> ''binary'' = Inr s \<and>
        (\<exists>v'. VClock_init s ''binary'' = Inr v' \<and> raw_vclock v' = map of_char ''hello'')) \<and>
   (\<exists>s. encode \<lparr>raw_vclock = map of_char ''hello''\<rparr> ''base64'' = Inr s \<and>
        (\<exists>v'. VClock_init s ''base64'' = Inr v' \<and> raw_vclock v' = map of_char ''hello''))"
proof -
  have d: "VClock_init (map of_char ''aGVsbG8='') ''base64''
             = Inr \<lparr>raw_vclock = map of_char ''hello''\<rparr>"
    by code_simp
  have e: "''base64'' \<in> {''base64'', ''binary''}" "''binary'' \<in> {''base64'', ''binary''}"
    by simp_all
  from vclock_roundtrip [OF e(1) e(2) d] vclock_roundtrip [OF e(1) e(1) d] d
  show ?thesis by simp
qed

section \<open>Properties of the methods that call the transport\<close>

text \<open>
  Claim C2. \<^verbatim>\<open>reload\<close> accepts \<^verbatim>\<open>basic_quorum\<close> and \<^verbatim>\<open>notfound_ok\<close>
  but calls the transport with \<^verbatim>\<open>r\<close>, \<^verbatim>\<open>pr\<close> and \<^verbatim>\<open>timeout\<close> only:
  its outcome is the same whatever the two arguments are, and a transport that needs
  them raises even when the caller gave both.
\<close>

theorem reload_drops_not_found_flags:
  "reload client self r pr timeout basic_quorum notfound_ok
     = reload client self r pr timeout PyNone PyNone \<and>
   reload transport_strict (demo_record [version_a]) PyNone PyNone PyNone
       (PyBool True) (PyBool False)
     = (demo_record [version_a], Inl (OtherError ''not-found policy missing''))"
  by (simp add: reload_def transport_strict_def kwarg_def)

text \<open>
  Claim C6, as the code has it. When the transport's \<^verbatim>\<open>delete\<close> returns,
  whatever it returns and in whatever state it leaves the record, \<^verbatim>\<open>delete\<close>
  clears the siblings, so the record holds none and does not exist, and it returns the
  record. When the transport's call raises, the error reaches the caller and the
  record stays as the transport left it.
\<close>

theorem delete_clears_when_transport_returns:
  "(\<forall>self' x.
      client_delete client self
        [(''r'', r), (''w'', w), (''dw'', dw), (''pr'', pr), (''pw'', pw), (''timeout'', timeout)]
        = (self', Inr x)
      \<longrightarrow> delete client self r w dw pr pw timeout = (clear self', Inr (clear self')) \<and>
          length (siblings (fst (delete client self r w dw pr pw timeout))) = 0 \<and>
          \<not> RiakObject_exists K (fst (delete client self r w dw pr pw timeout)) \<and>
          snd (delete client self r w dw pr pw timeout)
            = Inr (fst (delete client self r w dw pr pw timeout))) \<and>
   (\<forall>self' e.
      client_delete client self
        [(''r'', r), (''w'', w), (''dw'', dw), (''pr'', pr), (''pw'', pw), (''timeout'', timeout)]
        = (self', Inl e)
      \<longrightarrow> delete client self r w dw pr pw timeout = (self', Inl e))"
  by (simp add: delete_def clear_def RiakObject_exists_def)

theorem delete_clears_when_transport_returns_witness:
  "delete transport_ok (demo_record [version_a, version_b])
       PyNone PyNone PyNone PyNone PyNone PyNone
     = (demo_record [], Inr (demo_record [])) \<and>
   length (siblings (fst (delete transport_ok (demo_record [version_a, version_b])
       PyNone PyNone PyNone PyNone PyNone PyNone))) = 0 \<and>
   \<not> RiakObject_exists plain_content
       (fst (delete transport_ok (demo_record [version_a, version_b])
          PyNone PyNone PyNone PyNone PyNone PyNone)) \<and>
   delete transport_down (demo_record [version_a, version_b])
       PyNone PyNone PyNone PyNone PyNone PyNone
     = (demo_record [version_a, version_b], Inl (OtherError ''connection refused''))"
proof -
  have ok: "client_delete transport_ok (demo_record [version_a, version_b]) kws
              = (demo_record [version_a, version_b], Inr PyNone)" for kws
    by (simp add: transport_ok_def)
  have down: "client_delete transport_down (demo_record [version_a, version_b]) kws
              = (demo_record [version_a, version_b], Inl (OtherError ''connection refused''))"
    for kws
    by (simp add: transport_down_def)
  have c: "clear (demo_record [version_a, version_b]) = demo_record []"
    by (simp add: clear_def demo_record_def)
  note A = delete_clears_when_transport_returns
    [where client = transport_ok and K = plain_content, THEN conjunct1, rule_format, OF ok]
  note B = delete_clears_when_transport_returns
    [where client = transport_down, THEN conjunct2, rule_format, OF down]
  from A B c show ?thesis
    by (simp add: demo_record_def RiakObject_exists_def)
qed

text \<open>
  Claim C6, as stated, fails when the transport's call raises: the record below holds
  one sibling, the transport is down, and after \<^verbatim>\<open>delete\<close> the record still
  holds that sibling and still exists.
\<close>

theorem delete_transport_failure_counterexample:
  "delete transport_down (demo_record [version_a]) PyNone PyNone PyNone PyNone PyNone PyNone
     = (demo_record [version_a], Inl (OtherError ''connection refused'')) \<and>
   length (siblings (fst (delete transport_down (demo_record [version_a])
       PyNone PyNone PyNone PyNone PyNone PyNone))) = 1 \<and>
   RiakObject_exists plain_content
     (fst (delete transport_down (demo_record [version_a])
        PyNone PyNone PyNone PyNone PyNone PyNone))"
  by (simp add: delete_def transport_down_def demo_record_def RiakObject_exists_def
        plain_content_def version_a_def)

section \<open>Properties of equality\<close>









end
